theory Spec2Isabelle
  imports Main "HOL-Library.AList"
begin

section \<open>JSON values and insertion-ordered objects\<close>

text \<open>
  The generator builds plain JavaScript objects. An object is kept as the list of its own
  properties in insertion order: assigning to an existing key replaces the value where the
  key stands, assigning to a new key appends it. Member names are identifiers, so the
  numeric-key reordering of JavaScript objects does not arise.

  The key \<open>__proto__\<close> is no property: an entry under it is the prototype the object was
  given. The assignment \<^verbatim>\<open>obj['__proto__'] = v\<close> sets the prototype when \<open>v\<close> is an
  object or an array and does nothing otherwise, and in neither case does the object get a
  key of its own. The properties inherited from a prototype are not modelled: the
  generator reads nothing back from the objects it builds.
\<close>

datatype JsonValue =
    JUndefined
  | JString string
  | JBool bool
  | JArray "JsonValue list"
  | JObject "(string \<times> JsonValue) list"

type_synonym JsonObject = "(string \<times> JsonValue) list"

fun isObject :: "JsonValue \<Rightarrow> bool" where
  "isObject (JObject members) = True"
| "isObject (JArray elements) = True"
| "isObject v = False"

text \<open>\<^verbatim>\<open>obj[key] = v\<close>\<close>

definition setProperty :: "JsonObject \<Rightarrow> string \<Rightarrow> JsonValue \<Rightarrow> JsonObject" where
  "setProperty obj key v =
     (if key = ''__proto__'' \<and> \<not> isObject v then obj else AList.update key v obj)"

text \<open>
  The own property under a key and, under \<open>__proto__\<close>, the prototype the object was
  given; \<open>None\<close> when there is none.
\<close>

definition getProperty :: "JsonObject \<Rightarrow> string \<Rightarrow> JsonValue option" where
  "getProperty obj key = map_of obj key"

text \<open>the keys of the entries of an object, in order\<close>

definition keys :: "JsonObject \<Rightarrow> string list" where
  "keys obj = map fst obj"

text \<open>\<^verbatim>\<open>Object.keys(obj)\<close>: the keys of the own properties, in insertion order\<close>

definition ownKeys :: "JsonObject \<Rightarrow> string list" where
  "ownKeys obj = filter (\<lambda>k. k \<noteq> ''__proto__'') (map fst obj)"

section \<open>The documented item model\<close>

text \<open>
  \<open>IDocElement\<close> (the markup items of a doc comment) is a JSON-serialisable object that
  the generator copies through unchanged.
\<close>

type_synonym IDocElement = JsonValue

datatype ReleaseTag = None_tag | Internal | Alpha | Beta | Public

datatype AstItemKind =
    Class | Enum | EnumValue | Function | Interface | Method | Package
  | Property | Constructor | Namespace | ModuleVariable

text \<open>
  Modelled from the spec: \<open>ApiJsonFile.convertKindToJson\<close>, the Kind-Name Table, is not
  part of the sources at hand. The spec gives it as a total function from the kind tag to
  a fixed lowercase string and lists these strings.
\<close>

fun convertKindToJson :: "AstItemKind \<Rightarrow> string" where
  "convertKindToJson Class = ''class''"
| "convertKindToJson Interface = ''interface''"
| "convertKindToJson Enum = ''enum''"
| "convertKindToJson EnumValue = ''enum value''"
| "convertKindToJson Function = ''function''"
| "convertKindToJson Method = ''method''"
| "convertKindToJson Property = ''property''"
| "convertKindToJson Namespace = ''namespace''"
| "convertKindToJson ModuleVariable = ''module variable''"
| "convertKindToJson Constructor = ''constructor''"
| "convertKindToJson Package = ''package''"

text \<open>
  The documentation bundle of an item. \<open>parameters\<close> maps a parameter name to its
  \<open>IApiParameter\<close> object (name, description and, once filled in, isOptional, isSpread
  and type); the map is always there, empty when nothing is documented. The rich-text
  fields may be undefined.
\<close>

record ApiDocumentation =
  summary :: "IDocElement list option"
  remarks :: "IDocElement list option"
  deprecatedMessage :: "IDocElement list option"
  releaseTag :: ReleaseTag
  parameters :: "(string \<times> JsonObject) list"
  returnsMessage :: "IDocElement list option"

text \<open>
  What every item has. A parameter is an item too; the generator reads its name, its
  \<open>supportedName\<close> and the three fields of its declaration.
\<close>

record AstNamedItem =
  name :: string
  supportedName :: bool

record AstItemBase = AstNamedItem +
  kind :: AstItemKind
  documentation :: ApiDocumentation

record AstParameter = AstNamedItem +
  paramIsOptional :: bool
  isSpread :: bool
  paramType :: string

text \<open>
  A \<open>ts.Declaration\<close> as far as the generator reads it: its numeric syntax kind and the
  texts of its tokens. A token node is identified by its position in the declaration.
\<close>

record Declaration =
  syntaxKind :: nat
  tokens :: "string list"

type_synonym Token = "nat \<times> string"

definition getFirstToken :: "Declaration \<Rightarrow> Token option" where
  "getFirstToken d = (case tokens d of [] \<Rightarrow> None | t # ts \<Rightarrow> Some (0, t))"

definition getLastToken :: "Declaration \<Rightarrow> Token option" where
  "getLastToken d =
     (case tokens d of [] \<Rightarrow> None | t # ts \<Rightarrow> Some (length ts, last (t # ts)))"

definition getText :: "Token \<Rightarrow> string" where
  "getText t = snd t"

text \<open>
  The constants of the TypeScript compiler's \<open>SyntaxKind\<close> enum that the generator
  compares with; their numeric values depend on the compiler version.
\<close>

record SyntaxKind =
  SetAccessor :: nat

datatype ApiAccessModifier = Private | Protected | Public_modifier

record StructuredTypeInfo =
  extends :: "string option"
  implements :: "string option"
  typeParameters :: "string list option"

record FunctionInfo =
  fnParams :: "AstParameter list"
  fnReturnType :: string

record PropertyInfo =
  propDeclaration :: Declaration
  propIsOptional :: bool
  isReadOnly :: bool
  propIsStatic :: bool
  propType :: string

record ModuleVariableInfo =
  mvType :: string
  mvValue :: string

record MethodInfo =
  params :: "AstParameter list"
  returnType :: string
  accessModifier :: "ApiAccessModifier option"
  isOptional :: bool
  isStatic :: bool
  declarationLine :: string

text \<open>
  One constructor per item class. The member lists are what \<open>getSortedMemberItems\<close>
  returns, in that order.
\<close>

datatype AstItem =
    AstStructuredType AstItemBase StructuredTypeInfo "AstItem list"
  | AstEnum AstItemBase "AstItem list"
  | AstEnumValue AstItemBase "Declaration option"
  | AstFunction AstItemBase FunctionInfo
  | AstPackage AstItemBase "AstItem list"
  | AstNamespace AstItemBase "AstItem list"
  | AstMember AstItemBase Declaration
  | AstProperty AstItemBase PropertyInfo
  | AstModuleVariable AstItemBase ModuleVariableInfo
  | AstMethod AstItemBase MethodInfo

fun base :: "AstItem \<Rightarrow> AstItemBase" where
  "base (AstStructuredType b i ms) = b"
| "base (AstEnum b ms) = b"
| "base (AstEnumValue b d) = b"
| "base (AstFunction b i) = b"
| "base (AstPackage b ms) = b"
| "base (AstNamespace b ms) = b"
| "base (AstMember b d) = b"
| "base (AstProperty b i) = b"
| "base (AstModuleVariable b i) = b"
| "base (AstMethod b i) = b"

section \<open>ApiJsonGenerator\<close>

text \<open>\<^verbatim>\<open>x || []\<close> on a rich-text field\<close>

definition orEmpty :: "IDocElement list option \<Rightarrow> JsonValue" where
  "orEmpty x = (case x of None \<Rightarrow> JArray [] | Some es \<Rightarrow> JArray es)"

text \<open>a rich-text field written as it is, \<^verbatim>\<open>undefined\<close> included\<close>

definition asIs :: "IDocElement list option \<Rightarrow> JsonValue" where
  "asIs x = (case x of None \<Rightarrow> JUndefined | Some es \<Rightarrow> JArray es)"

text \<open>\<^verbatim>\<open>s || ''\<close>\<close>

definition orEmptyString :: "string option \<Rightarrow> JsonValue" where
  "orEmptyString x = (case x of None \<Rightarrow> JString [] | Some s \<Rightarrow> JString s)"

definition isBeta :: "AstItemBase \<Rightarrow> JsonValue" where
  "isBeta b = JBool (releaseTag (documentation b) = Beta)"

text \<open>the \<open>parameters\<close> object of the documentation, as it is written into a node\<close>

definition parametersNode :: "(string \<times> JsonObject) list \<Rightarrow> JsonValue" where
  "parametersNode ps = JObject (map (\<lambda>(n, r). (n, JObject r)) ps)"

subsection \<open>visitApiParam\<close>

text \<open>
  \<open>visitApiParam\<close> assigns three properties of the documentation entry it is handed, when
  it is handed one. The result is the entry after the call.
\<close>

definition visitApiParam :: "AstParameter \<Rightarrow> JsonObject option \<Rightarrow> JsonObject option" where
  "visitApiParam astParam refObject =
     (if \<not> supportedName astParam then refObject
      else case refObject of
        None \<Rightarrow> None
      | Some r \<Rightarrow>
          Some (setProperty
                 (setProperty
                   (setProperty r ''isOptional'' (JBool (paramIsOptional astParam)))
                   ''isSpread'' (JBool (isSpread astParam)))
                 ''type'' (JString (paramType astParam))))"

text \<open>
  The loop \<^verbatim>\<open>for (const param of params) this.visitApiParam(param, parameters[param.name])\<close>:
  the entry is changed in place, so the map keeps its keys and their order.
\<close>

fun visitApiParams ::
  "AstParameter list \<Rightarrow> (string \<times> JsonObject) list \<Rightarrow> (string \<times> JsonObject) list" where
  "visitApiParams [] ps = ps"
| "visitApiParams (param # rest) ps =
     visitApiParams rest
       (case visitApiParam param (map_of ps (name param)) of
          None \<Rightarrow> ps
        | Some r \<Rightarrow> AList.update (name param) r ps)"

subsection \<open>The handlers of the items without members\<close>

text \<open>
  A handler takes the parts of the item and the target object and returns the item as the
  call leaves it together with the target object as the call leaves it.
\<close>

definition visitAstEnumValue ::
  "AstItemBase \<Rightarrow> Declaration option \<Rightarrow> JsonObject \<Rightarrow> AstItem \<times> JsonObject" where
  "visitAstEnumValue astEnumValue declaration refObject =
     (if \<not> supportedName astEnumValue then (AstEnumValue astEnumValue declaration, refObject)
      else
        let firstToken = (case declaration of None \<Rightarrow> None | Some d \<Rightarrow> getFirstToken d);
            lastToken = (case declaration of None \<Rightarrow> None | Some d \<Rightarrow> getLastToken d);
            v = (case lastToken of
                   None \<Rightarrow> []
                 | Some t \<Rightarrow> if lastToken \<noteq> firstToken then getText t else [])
        in (AstEnumValue astEnumValue declaration,
            setProperty refObject (name astEnumValue)
              (JObject
                [(''kind'', JString (convertKindToJson (kind astEnumValue))),
                 (''value'', JString v),
                 (''deprecatedMessage'', orEmpty (deprecatedMessage (documentation astEnumValue))),
                 (''summary'', orEmpty (summary (documentation astEnumValue))),
                 (''remarks'', orEmpty (remarks (documentation astEnumValue))),
                 (''isBeta'', isBeta astEnumValue)])))"

definition visitAstFunction ::
  "AstItemBase \<Rightarrow> FunctionInfo \<Rightarrow> JsonObject \<Rightarrow> AstItem \<times> JsonObject" where
  "visitAstFunction astFunction info refObject =
     (if \<not> supportedName astFunction then (AstFunction astFunction info, refObject)
      else
        let doc = (documentation astFunction)
                    \<lparr>parameters := visitApiParams (fnParams info)
                                     (parameters (documentation astFunction))\<rparr>;
            returnValueNode =
              JObject [(''type'', JString (fnReturnType info)),
                       (''description'', asIs (returnsMessage doc))];
            newNode =
              JObject
                [(''kind'', JString (convertKindToJson (kind astFunction))),
                 (''returnValue'', returnValueNode),
                 (''parameters'', parametersNode (parameters doc)),
                 (''deprecatedMessage'', orEmpty (deprecatedMessage doc)),
                 (''summary'', orEmpty (summary doc)),
                 (''remarks'', orEmpty (remarks doc)),
                 (''isBeta'', isBeta astFunction)]
        in (AstFunction (astFunction\<lparr>documentation := doc\<rparr>) info,
            setProperty refObject (name astFunction) newNode))"

text \<open>'astMember-' + kind prints the numeric syntax kind in decimal.\<close>

fun numberToString :: "nat \<Rightarrow> string" where
  "numberToString n =
     (if n < 10 then [''0123456789'' ! n]
      else numberToString (n div 10) @ [''0123456789'' ! (n mod 10)])"

declare numberToString.simps [simp del]

definition visitAstMember ::
  "AstItemBase \<Rightarrow> Declaration \<Rightarrow> JsonObject \<Rightarrow> AstItem \<times> JsonObject" where
  "visitAstMember astMember declaration refObject =
     (if \<not> supportedName astMember then (AstMember astMember declaration, refObject)
      else (AstMember astMember declaration,
            setProperty refObject (name astMember)
              (JString (''astMember-'' @ numberToString (syntaxKind declaration)))))"

definition visitAstProperty ::
  "SyntaxKind \<Rightarrow> AstItemBase \<Rightarrow> PropertyInfo \<Rightarrow> JsonObject \<Rightarrow> AstItem \<times> JsonObject" where
  "visitAstProperty ts astProperty info refObject =
     (if \<not> supportedName astProperty then (AstProperty astProperty info, refObject)
      else if syntaxKind (propDeclaration info) = SetAccessor ts
      then (AstProperty astProperty info, refObject)
      else (AstProperty astProperty info,
            setProperty refObject (name astProperty)
              (JObject
                [(''kind'', JString (convertKindToJson (kind astProperty))),
                 (''isOptional'', JBool (propIsOptional info)),
                 (''isReadOnly'', JBool (isReadOnly info)),
                 (''isStatic'', JBool (propIsStatic info)),
                 (''type'', JString (propType info)),
                 (''deprecatedMessage'', orEmpty (deprecatedMessage (documentation astProperty))),
                 (''summary'', orEmpty (summary (documentation astProperty))),
                 (''remarks'', orEmpty (remarks (documentation astProperty))),
                 (''isBeta'', isBeta astProperty)])))"

definition visitAstModuleVariable ::
  "AstItemBase \<Rightarrow> ModuleVariableInfo \<Rightarrow> JsonObject \<Rightarrow> AstItem \<times> JsonObject" where
  "visitAstModuleVariable astModuleVariable info refObject =
     (AstModuleVariable astModuleVariable info,
      setProperty refObject (name astModuleVariable)
        (JObject
          [(''kind'', JString (convertKindToJson (kind astModuleVariable))),
           (''type'', JString (mvType info)),
           (''value'', JString (mvValue info)),
           (''deprecatedMessage'', orEmpty (deprecatedMessage (documentation astModuleVariable))),
           (''summary'', orEmpty (summary (documentation astModuleVariable))),
           (''remarks'', orEmpty (remarks (documentation astModuleVariable))),
           (''isBeta'', isBeta astModuleVariable)]))"

text \<open>
  Modelled from the spec: the enum \<open>ApiAccessModifier\<close> of \<open>AstMember\<close> is not part of the
  sources at hand. The spec gives the field as the lower-cased name of the modifier, or
  the empty string if there is none.
\<close>

fun accessModifierText :: "ApiAccessModifier option \<Rightarrow> string" where
  "accessModifierText None = []"
| "accessModifierText (Some Private) = ''private''"
| "accessModifierText (Some Protected) = ''protected''"
| "accessModifierText (Some Public_modifier) = ''public''"

definition visitAstMethod ::
  "AstItemBase \<Rightarrow> MethodInfo \<Rightarrow> JsonObject \<Rightarrow> AstItem \<times> JsonObject" where
  "visitAstMethod astMethod info refObject =
     (if \<not> supportedName astMethod then (AstMethod astMethod info, refObject)
      else
        let doc = (documentation astMethod)
                    \<lparr>parameters := visitApiParams (params info)
                                     (parameters (documentation astMethod))\<rparr>;
            newNode =
              (if name astMethod = ''__constructor'' then
                 JObject
                   [(''kind'', JString (convertKindToJson Constructor)),
                    (''signature'', JString (declarationLine info)),
                    (''parameters'', parametersNode (parameters doc)),
                    (''deprecatedMessage'', orEmpty (deprecatedMessage doc)),
                    (''summary'', orEmpty (summary doc)),
                    (''remarks'', orEmpty (remarks doc))]
               else
                 let returnValueNode =
                       JObject [(''type'', JString (returnType info)),
                                (''description'', asIs (returnsMessage doc))]
                 in JObject
                   [(''kind'', JString (convertKindToJson (kind astMethod))),
                    (''signature'', JString (declarationLine info)),
                    (''accessModifier'', JString (accessModifierText (accessModifier info))),
                    (''isOptional'', JBool (isOptional info)),
                    (''isStatic'', JBool (isStatic info)),
                    (''returnValue'', returnValueNode),
                    (''parameters'', parametersNode (parameters doc)),
                    (''deprecatedMessage'', orEmpty (deprecatedMessage doc)),
                    (''summary'', orEmpty (summary doc)),
                    (''remarks'', orEmpty (remarks doc)),
                    (''isBeta'', isBeta astMethod)])
        in (AstMethod (astMethod\<lparr>documentation := doc\<rparr>) info,
            setProperty refObject (name astMethod) newNode))"

subsection \<open>The traversal\<close>

text \<open>
  \<open>visit\<close> is the generator's override: the release-tag gate, then the inherited
  dispatch. The handlers of the items with members call \<open>visit\<close> on each member, so they
  are defined together with it. A handler hangs the member object into its node before the
  members are visited and the visits fill it afterwards; the node below holds the member
  object as the visits leave it. The static \<open>_methodCounter\<close> is reset by
  \<open>visitAstStructuredType\<close> and read nowhere; it is left out.
\<close>

text \<open>
  Modelled from the spec: \<open>AstItemVisitor.visit\<close>, the inherited dispatch that
  \<open>AstItemVisitor_visit\<close> stands for, is not part of the sources at hand. The spec gives
  it as the dispatch on the item's kind to the handler of that kind, with the generic
  placeholder handler \<open>visitAstMember\<close> for the rest. The other functions defined here
  are those of \<open>ApiJsonGenerator\<close>.
\<close>

function (sequential) visit :: "SyntaxKind \<Rightarrow> AstItem \<Rightarrow> JsonObject \<Rightarrow> AstItem \<times> JsonObject"
and AstItemVisitor_visit :: "SyntaxKind \<Rightarrow> AstItem \<Rightarrow> JsonObject \<Rightarrow> AstItem \<times> JsonObject"
and visitMembers :: "SyntaxKind \<Rightarrow> AstItem list \<Rightarrow> JsonObject \<Rightarrow> AstItem list \<times> JsonObject"
and visitAstStructuredType ::
  "SyntaxKind \<Rightarrow> AstItemBase \<Rightarrow> StructuredTypeInfo \<Rightarrow> AstItem list \<Rightarrow> JsonObject
     \<Rightarrow> AstItem \<times> JsonObject"
and visitAstEnum ::
  "SyntaxKind \<Rightarrow> AstItemBase \<Rightarrow> AstItem list \<Rightarrow> JsonObject \<Rightarrow> AstItem \<times> JsonObject"
and visitAstPackage ::
  "SyntaxKind \<Rightarrow> AstItemBase \<Rightarrow> AstItem list \<Rightarrow> JsonObject \<Rightarrow> AstItem \<times> JsonObject"
and visitAstNamespace ::
  "SyntaxKind \<Rightarrow> AstItemBase \<Rightarrow> AstItem list \<Rightarrow> JsonObject \<Rightarrow> AstItem \<times> JsonObject"
where
  "visit ts astItem refObject =
     (case releaseTag (documentation (base astItem)) of
        None_tag \<Rightarrow> AstItemVisitor_visit ts astItem refObject
      | Beta \<Rightarrow> AstItemVisitor_visit ts astItem refObject
      | Public \<Rightarrow> AstItemVisitor_visit ts astItem refObject
      | _ \<Rightarrow> (astItem, refObject))"
| "AstItemVisitor_visit ts (AstStructuredType b i ms) refObject =
     visitAstStructuredType ts b i ms refObject"
| "AstItemVisitor_visit ts (AstEnum b ms) refObject = visitAstEnum ts b ms refObject"
| "AstItemVisitor_visit ts (AstEnumValue b d) refObject = visitAstEnumValue b d refObject"
| "AstItemVisitor_visit ts (AstFunction b i) refObject = visitAstFunction b i refObject"
| "AstItemVisitor_visit ts (AstPackage b ms) refObject = visitAstPackage ts b ms refObject"
| "AstItemVisitor_visit ts (AstNamespace b ms) refObject = visitAstNamespace ts b ms refObject"
| "AstItemVisitor_visit ts (AstProperty b i) refObject = visitAstProperty ts b i refObject"
| "AstItemVisitor_visit ts (AstModuleVariable b i) refObject =
     visitAstModuleVariable b i refObject"
| "AstItemVisitor_visit ts (AstMethod b i) refObject = visitAstMethod b i refObject"
| "AstItemVisitor_visit ts (AstMember b d) refObject = visitAstMember b d refObject"
| "visitMembers ts [] refObject = ([], refObject)"
| "visitMembers ts (astItem # rest) refObject =
     (case visit ts astItem refObject of
        (astItem', refObject') \<Rightarrow>
          (case visitMembers ts rest refObject' of
             (rest', refObject'') \<Rightarrow> (astItem' # rest', refObject'')))"
| "visitAstStructuredType ts astStructuredType info members refObject =
     (if \<not> supportedName astStructuredType
      then (AstStructuredType astStructuredType info members, refObject)
      else
        let kindText =
              (if kind astStructuredType = Class then convertKindToJson Class
               else if kind astStructuredType = Interface then convertKindToJson Interface
               else []);
            structureNode =
              [(''kind'', JString kindText),
               (''extends'', orEmptyString (extends info)),
               (''implements'', orEmptyString (implements info)),
               (''typeParameters'',
                  (case typeParameters info of
                     None \<Rightarrow> JArray []
                   | Some tps \<Rightarrow> JArray (map JString tps))),
               (''deprecatedMessage'', orEmpty (deprecatedMessage (documentation astStructuredType))),
               (''summary'', orEmpty (summary (documentation astStructuredType))),
               (''remarks'', orEmpty (remarks (documentation astStructuredType))),
               (''isBeta'', isBeta astStructuredType)]
        in if members \<noteq> [] then
             (case visitMembers ts members [] of
                (members', membersNode) \<Rightarrow>
                  (AstStructuredType astStructuredType info members',
                   setProperty refObject (name astStructuredType)
                     (JObject (setProperty structureNode ''members'' (JObject membersNode)))))
           else
             (AstStructuredType astStructuredType info members,
              setProperty refObject (name astStructuredType) (JObject structureNode)))"
| "visitAstEnum ts astEnum members refObject =
     (if \<not> supportedName astEnum then (AstEnum astEnum members, refObject)
      else
        (case visitMembers ts members [] of
           (members', valuesNode) \<Rightarrow>
             (AstEnum astEnum members',
              setProperty refObject (name astEnum)
                (JObject
                  [(''kind'', JString (convertKindToJson (kind astEnum))),
                   (''values'', JObject valuesNode),
                   (''deprecatedMessage'', orEmpty (deprecatedMessage (documentation astEnum))),
                   (''summary'', orEmpty (summary (documentation astEnum))),
                   (''remarks'', orEmpty (remarks (documentation astEnum))),
                   (''isBeta'', isBeta astEnum)]))))"
| "visitAstPackage ts astPackage members refObject =
     (case visitMembers ts members [] of
        (members', membersNode) \<Rightarrow>
          (AstPackage astPackage members',
           setProperty
             (setProperty
               (setProperty
                 (setProperty refObject ''kind'' (JString (convertKindToJson (kind astPackage))))
                 ''summary'' (asIs (summary (documentation astPackage))))
               ''remarks'' (asIs (remarks (documentation astPackage))))
             ''exports'' (JObject membersNode)))"
| "visitAstNamespace ts astNamespace members refObject =
     (if \<not> supportedName astNamespace then (AstNamespace astNamespace members, refObject)
      else
        (case visitMembers ts members [] of
           (members', membersNode) \<Rightarrow>
             (AstNamespace astNamespace members',
              setProperty refObject (name astNamespace)
                (JObject
                  [(''kind'', JString (convertKindToJson (kind astNamespace))),
                   (''deprecatedMessage'', orEmpty (deprecatedMessage (documentation astNamespace))),
                   (''summary'', orEmpty (summary (documentation astNamespace))),
                   (''remarks'', orEmpty (remarks (documentation astNamespace))),
                   (''isBeta'', isBeta astNamespace),
                   (''exports'', JObject membersNode)]))))"
  by pat_completeness auto

termination
  by (relation "measure (\<lambda>x. case x of
        Inl (Inl (ts, astItem, refObject)) \<Rightarrow> 2 * size astItem + 1
      | Inl (Inr (Inl (ts, astItem, refObject))) \<Rightarrow> 2 * size astItem
      | Inl (Inr (Inr (ts, members, refObject))) \<Rightarrow> 2 * size_list size members
      | Inr (Inl (Inl (ts, b, info, members, refObject))) \<Rightarrow> 2 * size_list size members + 1
      | Inr (Inl (Inr (ts, b, members, refObject))) \<Rightarrow> 2 * size_list size members + 1
      | Inr (Inr (Inl (ts, b, members, refObject))) \<Rightarrow> 2 * size_list size members + 1
      | Inr (Inr (Inr (ts, b, members, refObject))) \<Rightarrow> 2 * size_list size members + 1)")
    auto

declare visit.simps [simp del]
declare visitAstStructuredType.simps [simp del]
declare visitAstEnum.simps [simp del]
declare visitAstPackage.simps [simp del]
declare visitAstNamespace.simps [simp del]

subsection \<open>writeJsonFile\<close>


text \<open>
  \<^verbatim>\<open>JSON.stringify\<close>, as far as the key order and the members go: the JSON text lists the own
  properties of every object, so the text is kept as the document without the prototypes.
\<close>

fun stringifyValue :: "JsonValue \<Rightarrow> JsonValue"
and stringifyMembers :: "(string \<times> JsonValue) list \<Rightarrow> (string \<times> JsonValue) list"
and stringifyElements :: "JsonValue list \<Rightarrow> JsonValue list" where
  "stringifyValue (JObject members) = JObject (stringifyMembers members)"
| "stringifyValue (JArray elements) = JArray (stringifyElements elements)"
| "stringifyValue v = v"
| "stringifyMembers [] = []"
| "stringifyMembers ((k, v) # members) =
     (if k = ''__proto__'' then stringifyMembers members
      else (k, stringifyValue v) # stringifyMembers members)"
| "stringifyElements [] = []"
| "stringifyElements (v # elements) = stringifyValue v # stringifyElements elements"

text \<open>
  Modelled from the spec: \<open>JsonFile.validateNoUndefinedMembers\<close> of \<open>node-core-library\<close> is
  not part of the sources at hand, and the spec does not speak of it. The library walks
  the own keys of every object and array of the document, depth first, and throws at the
  first member whose value is \<^verbatim>\<open>undefined\<close>. The result is the key path of that member,
  \<open>None\<close> when there is none; the elements of an array have their index as key.
\<close>

fun undefinedMember :: "string list \<Rightarrow> JsonValue \<Rightarrow> string list option"
and undefinedMemberOf :: "string list \<Rightarrow> (string \<times> JsonValue) list \<Rightarrow> string list option"
and undefinedElementOf :: "string list \<Rightarrow> nat \<Rightarrow> JsonValue list \<Rightarrow> string list option" where
  "undefinedMember keyPath (JObject members) = undefinedMemberOf keyPath members"
| "undefinedMember keyPath (JArray elements) = undefinedElementOf keyPath 0 elements"
| "undefinedMember keyPath v = None"
| "undefinedMemberOf keyPath [] = None"
| "undefinedMemberOf keyPath ((k, v) # members) =
     (if k = ''__proto__'' then undefinedMemberOf keyPath members
      else if v = JUndefined then Some (keyPath @ [k])
      else (case undefinedMember (keyPath @ [k]) v of
              Some p \<Rightarrow> Some p
            | None \<Rightarrow> undefinedMemberOf keyPath members))"
| "undefinedElementOf keyPath n [] = None"
| "undefinedElementOf keyPath n (v # elements) =
     (if v = JUndefined then Some (keyPath @ [numberToString n])
      else (case undefinedMember (keyPath @ [numberToString n]) v of
              Some p \<Rightarrow> Some p
            | None \<Rightarrow> undefinedElementOf keyPath (Suc n) elements))"








section \<open>Sample items\<close>

definition sampleDoc :: "ReleaseTag \<Rightarrow> (string \<times> JsonObject) list \<Rightarrow> ApiDocumentation" where
  "sampleDoc tag ps =
     \<lparr>summary = None, remarks = None, deprecatedMessage = None, releaseTag = tag,
      parameters = ps, returnsMessage = None\<rparr>"

definition sampleBase :: "string \<Rightarrow> AstItemKind \<Rightarrow> bool \<Rightarrow> ApiDocumentation \<Rightarrow> AstItemBase" where
  "sampleBase n k s doc = \<lparr>name = n, supportedName = s, kind = k, documentation = doc\<rparr>"

definition sampleSyntaxKinds :: SyntaxKind where
  "sampleSyntaxKinds = \<lparr>SetAccessor = 1\<rparr>"

definition sampleMethodInfo :: "AstParameter list \<Rightarrow> ApiAccessModifier option \<Rightarrow> MethodInfo" where
  "sampleMethodInfo ps am =
     \<lparr>params = ps, returnType = ''string'', accessModifier = am, isOptional = False,
      isStatic = False, declarationLine = ''bar(x: number): string;''\<rparr>"

definition sampleStructuredTypeInfo :: StructuredTypeInfo where
  "sampleStructuredTypeInfo = \<lparr>extends = None, implements = None, typeParameters = None\<rparr>"

definition publicMethod :: "string \<Rightarrow> AstItem" where
  "publicMethod n =
     AstMethod (sampleBase n Method True (sampleDoc Public [])) (sampleMethodInfo [] None)"

text \<open>the scenario of the spec: a class tagged alpha that holds a public method\<close>

definition alphaClass :: AstItem where
  "alphaClass =
     AstStructuredType (sampleBase ''Foo'' Class True (sampleDoc Alpha []))
       sampleStructuredTypeInfo [publicMethod ''bar'']"

definition samplePackage :: "AstItem list \<Rightarrow> AstItem" where
  "samplePackage ms =
     AstPackage (sampleBase ''example-package'' Package True (sampleDoc None_tag [])) ms"




definition sampleClass :: "string \<Rightarrow> AstItem list \<Rightarrow> AstItem" where
  "sampleClass n ms =
     AstStructuredType (sampleBase n Class True (sampleDoc Public [])) sampleStructuredTypeInfo ms"

definition sampleParameter :: "string \<Rightarrow> string \<Rightarrow> AstParameter" where
  "sampleParameter n t =
     \<lparr>name = n, supportedName = True, paramIsOptional = False, isSpread = False,
      paramType = t\<rparr>"

text \<open>the function \<open>f(x: number): string\<close> with the given parameter documentation\<close>

definition sampleFunction :: "(string \<times> JsonObject) list \<Rightarrow> AstItem" where
  "sampleFunction docs =
     AstFunction (sampleBase ''f'' Function True (sampleDoc Public docs))
       \<lparr>fnParams = [sampleParameter ''x'' ''number''], fnReturnType = ''string''\<rparr>"

text \<open>a documentation entry for the parameter \<open>x\<close>, as the doc comment gives it\<close>

definition documentedX :: "(string \<times> JsonObject) list" where
  "documentedX = [(''x'', [(''name'', JString ''x''), (''description'', JArray [])])]"


text \<open>a public module variable\<close>

definition sampleVariable :: "string \<Rightarrow> bool \<Rightarrow> AstItem" where
  "sampleVariable n s =
     AstModuleVariable (sampleBase n ModuleVariable s (sampleDoc Public []))
       \<lparr>mvType = ''string'', mvValue = ''1''\<rparr>"

text \<open>
  the function \<open>f(x: number): string\<close>, tagged internal, whose documentation has an
  entry for \<open>x\<close> with a type
\<close>

definition internalFunction :: AstItem where
  "internalFunction =
     AstFunction
       (sampleBase ''f'' Function True
          (sampleDoc Internal [(''x'', [(''name'', JString ''x''), (''type'', JString ''any'')])]))
       \<lparr>fnParams = [sampleParameter ''x'' ''number''], fnReturnType = ''string''\<rparr>"

section \<open>Derived notions\<close>


text \<open>the release tags that pass the gate of \<open>visit\<close>\<close>

definition visibleTag :: "AstItemBase \<Rightarrow> bool" where
  "visibleTag b = (releaseTag (documentation b) \<in> {None_tag, Beta, Public})"

text \<open>
  An item is emitted when it passes the gate of \<open>visit\<close> and the checks of its handler:
  the members that are left after the suppressed and the skipped ones are removed.
\<close>

fun emitted :: "SyntaxKind \<Rightarrow> AstItem \<Rightarrow> bool" where
  "emitted ts (AstProperty b i) =
     (visibleTag b \<and> supportedName b \<and> syntaxKind (propDeclaration i) \<noteq> SetAccessor ts)"
| "emitted ts (AstModuleVariable b i) = visibleTag b"
| "emitted ts (AstPackage b ms) = visibleTag b"
| "emitted ts item = (visibleTag (base item) \<and> supportedName (base item))"

fun isPackage :: "AstItem \<Rightarrow> bool" where
  "isPackage (AstPackage b ms) = True"
| "isPackage item = False"

definition itemName :: "AstItem \<Rightarrow> string" where
  "itemName item = name (base item)"

text \<open>
  The key order that a sequence of assignments leaves in an empty object: each name once,
  where it was assigned first.
\<close>

definition addKey :: "string list \<Rightarrow> string \<Rightarrow> string list" where
  "addKey ks k = (if k \<in> set ks then ks else ks @ [k])"

definition insertionOrder :: "string list \<Rightarrow> string list" where
  "insertionOrder ns = foldl addKey [] ns"

text \<open>the object under a key of a node, when the node is an object and holds one there\<close>

fun subContainer :: "string \<Rightarrow> JsonValue option \<Rightarrow> JsonObject option" where
  "subContainer key (Some (JObject node)) =
     (case getProperty node key of Some (JObject c) \<Rightarrow> Some c | _ \<Rightarrow> None)"
| "subContainer key v = None"

declare subContainer.simps [simp del]

text \<open>the strings of the Kind-Name Table\<close>

definition kindStrings :: "string list" where
  "kindStrings =
     map convertKindToJson
       [Class, Enum, EnumValue, Function, Interface, Method, Package, Property, Constructor,
        Namespace, ModuleVariable]"

text \<open>
  The fields that the output contract asks of every nested node: an object with a kind of
  the table, a boolean isBeta, and summary, remarks and deprecatedMessage.
\<close>

fun hasCommonFields :: "JsonValue \<Rightarrow> bool" where
  "hasCommonFields (JObject node) =
     ((case getProperty node ''kind'' of Some (JString s) \<Rightarrow> s \<in> set kindStrings | _ \<Rightarrow> False)
      \<and> (case getProperty node ''isBeta'' of Some (JBool b) \<Rightarrow> True | _ \<Rightarrow> False)
      \<and> getProperty node ''summary'' \<noteq> None
      \<and> getProperty node ''remarks'' \<noteq> None
      \<and> getProperty node ''deprecatedMessage'' \<noteq> None)"
| "hasCommonFields v = False"

text \<open>
  The items other than constructors, placeholder members and the package; a structured
  type counts when its kind is class or interface.
\<close>

fun fullNodeItem :: "AstItem \<Rightarrow> bool" where
  "fullNodeItem (AstMember b d) = False"
| "fullNodeItem (AstPackage b ms) = False"
| "fullNodeItem (AstMethod b i) = (name b \<noteq> ''__constructor'')"
| "fullNodeItem (AstStructuredType b i ms) = (kind b = Class \<or> kind b = Interface)"
| "fullNodeItem item = True"

text \<open>
  What the cross-check of the declared parameters may do to the item tree. The three
  properties that \<open>visitApiParam\<close> assigns are the declared fields; the declared names are
  the names of the declared parameters whose name is supported.
\<close>

definition declaredFields :: "string set" where
  "declaredFields = {''isOptional'', ''isSpread'', ''type''}"

definition withoutDeclaredFields :: "JsonObject \<Rightarrow> JsonObject" where
  "withoutDeclaredFields r = filter (\<lambda>kv. fst kv \<notin> declaredFields) r"

definition declaredNames :: "AstParameter list \<Rightarrow> string set" where
  "declaredNames ps = set (map name (filter supportedName ps))"

text \<open>
  An entry of the parameter documentation before and after: the key is the same, and the
  entry is the same, but for the declared fields of an entry under a declared name.
\<close>

definition entryChange ::
  "string set \<Rightarrow> string \<times> JsonObject \<Rightarrow> string \<times> JsonObject \<Rightarrow> bool" where
  "entryChange declared e e' =
     (fst e' = fst e
      \<and> (if fst e \<in> declared
          then withoutDeclaredFields (snd e') = withoutDeclaredFields (snd e)
          else snd e' = snd e))"

text \<open>
  The common fields of a function or method before and after: all is the same but the
  parameter documentation, which has the same entries in the same order, each changed as
  above at most.
\<close>

definition baseChange :: "string set \<Rightarrow> AstItemBase \<Rightarrow> AstItemBase \<Rightarrow> bool" where
  "baseChange declared b b' =
     (b' = b\<lparr>documentation := (documentation b)
                 \<lparr>parameters := parameters (documentation b')\<rparr>\<rparr>
      \<and> list_all2 (entryChange declared)
            (parameters (documentation b)) (parameters (documentation b')))"

text \<open>
  An item before and after. An item that is suppressed or skipped is the same with all
  that is below it. A function or method is the same but for its common fields, changed as
  above at most. An item with members has the same fields and as many members, each
  changed in this way at most. Every other item is the same.
\<close>

fun treeChange :: "AstItem \<Rightarrow> AstItem \<Rightarrow> bool"
and treeChanges :: "AstItem list \<Rightarrow> AstItem list \<Rightarrow> bool" where
  "treeChange (AstFunction b i) item' =
     (if visibleTag b \<and> supportedName b
      then (case item' of
              AstFunction b' i' \<Rightarrow> i' = i \<and> baseChange (declaredNames (fnParams i)) b b'
            | _ \<Rightarrow> False)
      else item' = AstFunction b i)"
| "treeChange (AstMethod b i) item' =
     (if visibleTag b \<and> supportedName b
      then (case item' of
              AstMethod b' i' \<Rightarrow> i' = i \<and> baseChange (declaredNames (params i)) b b'
            | _ \<Rightarrow> False)
      else item' = AstMethod b i)"
| "treeChange (AstStructuredType b i ms) item' =
     (if visibleTag b \<and> supportedName b
      then (case item' of
              AstStructuredType b' i' ms' \<Rightarrow> b' = b \<and> i' = i \<and> treeChanges ms ms'
            | _ \<Rightarrow> False)
      else item' = AstStructuredType b i ms)"
| "treeChange (AstEnum b ms) item' =
     (if visibleTag b \<and> supportedName b
      then (case item' of AstEnum b' ms' \<Rightarrow> b' = b \<and> treeChanges ms ms' | _ \<Rightarrow> False)
      else item' = AstEnum b ms)"
| "treeChange (AstNamespace b ms) item' =
     (if visibleTag b \<and> supportedName b
      then (case item' of AstNamespace b' ms' \<Rightarrow> b' = b \<and> treeChanges ms ms' | _ \<Rightarrow> False)
      else item' = AstNamespace b ms)"
| "treeChange (AstPackage b ms) item' =
     (if visibleTag b
      then (case item' of AstPackage b' ms' \<Rightarrow> b' = b \<and> treeChanges ms ms' | _ \<Rightarrow> False)
      else item' = AstPackage b ms)"
| "treeChange item item' = (item' = item)"
| "treeChanges [] ms' = (ms' = [])"
| "treeChanges (m # ms) ms' =
     (case ms' of [] \<Rightarrow> False | m' # rest \<Rightarrow> treeChange m m' \<and> treeChanges ms rest)"

text \<open>
  The members that the statement of the key order is about: no package, which is the
  root, and no module variable that would be skipped for its name, whose handler does not
  look at \<open>supportedName\<close>.
\<close>

fun regularMember :: "AstItem \<Rightarrow> bool" where
  "regularMember (AstPackage b ms) = False"
| "regularMember (AstModuleVariable b i) = (supportedName b \<or> \<not> visibleTag b)"
| "regularMember item = True"

text \<open>the \<open>parameters\<close> object of a function or method node\<close>

definition emittedParameters ::
  "AstParameter list \<Rightarrow> (string \<times> JsonObject) list \<Rightarrow> JsonObject" where
  "emittedParameters ps docs = map (\<lambda>(n, r). (n, JObject r)) (visitApiParams ps docs)"

section \<open>Objects\<close>

lemma getProperty_setProperty_same:
  "k \<noteq> ''__proto__'' \<or> isObject v \<Longrightarrow> getProperty (setProperty obj k v) k = Some v"
  by (auto simp: getProperty_def setProperty_def update_conv')

lemma getProperty_setProperty_other:
  "k' \<noteq> k \<Longrightarrow> getProperty (setProperty obj k v) k' = getProperty obj k'"
  by (simp add: getProperty_def setProperty_def update_conv')

lemma ownKeys_setProperty:
  "ownKeys (setProperty obj k v)
     = (if k = ''__proto__'' then ownKeys obj else addKey (ownKeys obj) k)"
  by (auto simp: ownKeys_def setProperty_def update_keys addKey_def)

lemma getProperty_Nil: "getProperty [] k = None"
  by (simp add: getProperty_def)

lemma getProperty_Cons:
  "getProperty ((k, v) # kvs) k' = (if k = k' then Some v else getProperty kvs k')"
  by (simp add: getProperty_def)

section \<open>The release-tag gate\<close>

lemma visit_visible:
  "releaseTag (documentation (base item)) \<in> {None_tag, Beta, Public}
     \<Longrightarrow> visit ts item obj = AstItemVisitor_visit ts item obj"
  by (auto simp: visit.simps)

lemma visit_hidden:
  "releaseTag (documentation (base item)) \<in> {Alpha, Internal} \<Longrightarrow> visit ts item obj = (item, obj)"
  by (auto simp: visit.simps)

lemma visitMembers_append:
  "visitMembers ts (xs @ ys) obj =
     (case visitMembers ts xs obj of (xs', obj') \<Rightarrow>
        (case visitMembers ts ys obj' of (ys', obj'') \<Rightarrow> (xs' @ ys', obj'')))"
  by (induction xs arbitrary: obj) (auto split: prod.splits)

text \<open>
  C1. An item tagged alpha or internal leaves \<open>visit\<close> at once: the target object and the
  item come back as they went in, so a member list gives the same output with the item as
  without it, and nothing of the item or below it reaches the document. An item tagged
  none, public or beta goes to the dispatch on its kind.
\<close>

theorem visit_releaseTag_gate:
  "(releaseTag (documentation (base item)) \<in> {Alpha, Internal} \<longrightarrow>
      visit ts item obj = (item, obj)
      \<and> snd (visitMembers ts (before @ item # after) obj)
          = snd (visitMembers ts (before @ after) obj))
   \<and> (releaseTag (documentation (base item)) \<in> {None_tag, Public, Beta} \<longrightarrow>
      visit ts item obj = AstItemVisitor_visit ts item obj)"
proof (intro conjI impI)
  assume h: "releaseTag (documentation (base item)) \<in> {Alpha, Internal}"
  show "visit ts item obj = (item, obj)"
    using h by (rule visit_hidden)
  show "snd (visitMembers ts (before @ item # after) obj)
          = snd (visitMembers ts (before @ after) obj)"
    by (simp add: visitMembers_append visit_hidden [OF h] split: prod.splits)
next
  assume "releaseTag (documentation (base item)) \<in> {None_tag, Public, Beta}"
  then show "visit ts item obj = AstItemVisitor_visit ts item obj"
    by (auto simp: visit.simps)
qed

theorem visit_releaseTag_gate_witness:
  "releaseTag (documentation (base alphaClass)) \<in> {Alpha, Internal}
   \<and> visit sampleSyntaxKinds alphaClass [] = (alphaClass, [])
   \<and> snd (visitMembers sampleSyntaxKinds ([] @ alphaClass # []) [])
       = snd (visitMembers sampleSyntaxKinds ([] @ []) [])
   \<and> snd (visit sampleSyntaxKinds (samplePackage [alphaClass]) [])
       = [(''kind'', JString ''package''), (''summary'', JUndefined), (''remarks'', JUndefined),
          (''exports'', JObject [])]
   \<and> releaseTag (documentation (base (publicMethod ''bar''))) \<in> {None_tag, Public, Beta}
   \<and> visit sampleSyntaxKinds (publicMethod ''bar'') []
       = AstItemVisitor_visit sampleSyntaxKinds (publicMethod ''bar'') []"
  using visit_releaseTag_gate [of alphaClass sampleSyntaxKinds "[]" "[]" "[]"]
        visit_releaseTag_gate [of "publicMethod ''bar''" sampleSyntaxKinds "[]" "[]" "[]"]
  by (simp add: alphaClass_def publicMethod_def samplePackage_def sampleBase_def sampleDoc_def
                visit.simps visitAstPackage.simps setProperty_def asIs_def)

section \<open>Unsupported names\<close>

text \<open>
  C2. The handler of a module variable does not look at \<open>supportedName\<close>: a module variable
  with an unsupported name, here \<open>$injector\<close>, is written into the target object like any
  other.
\<close>

theorem visitAstModuleVariable_unsupportedName:
  "snd (visit sampleSyntaxKinds
         (AstModuleVariable (sampleBase ''$injector'' ModuleVariable False (sampleDoc Public []))
            \<lparr>mvType = ''string'', mvValue = ''1''\<rparr>) [])
   = [(''$injector'',
       JObject [(''kind'', JString ''module variable''), (''type'', JString ''string''),
                (''value'', JString ''1''), (''deprecatedMessage'', JArray []),
                (''summary'', JArray []), (''remarks'', JArray []), (''isBeta'', JBool False)])]"
  by (simp add: visit.simps visitAstModuleVariable_def sampleBase_def sampleDoc_def setProperty_def
                orEmpty_def isBeta_def)

section \<open>Writing and validating the document\<close>




section \<open>Enum values\<close>

text \<open>
  C10. An enum value that is emitted (supported name, release tag none, beta or public)
  has the node of its name in the target object, and the \<open>value\<close> field of that node is
  the text of the last token of the declaration when the declaration has more than one
  token, and the empty string otherwise, also when there is no declaration.
\<close>

theorem visitAstEnumValue_value:
  assumes "supportedName b" and "releaseTag (documentation b) \<in> {None_tag, Beta, Public}"
  shows "\<exists>node. getProperty (snd (visit ts (AstEnumValue b d) obj)) (name b) = Some (JObject node)
           \<and> getProperty node ''value'' =
               Some (JString (case d of
                                None \<Rightarrow> []
                              | Some decl \<Rightarrow>
                                  if 1 < length (tokens decl) then last (tokens decl) else []))"
proof -
  have "visit ts (AstEnumValue b d) obj = visitAstEnumValue b d obj"
    using assms(2) by (simp add: visit_visible)
  then show ?thesis
    using assms(1)
    by (cases d)
       (auto simp: visitAstEnumValue_def getProperty_setProperty_same Let_def
                   getFirstToken_def getLastToken_def getText_def getProperty_Cons
             split: list.splits)
qed

theorem visitAstEnumValue_value_witness:
  "supportedName (sampleBase ''Red'' EnumValue True (sampleDoc Public []))
   \<and> releaseTag (documentation (sampleBase ''Red'' EnumValue True (sampleDoc Public [])))
       \<in> {None_tag, Beta, Public}
   \<and> (\<exists>node. getProperty
                (snd (visit sampleSyntaxKinds
                       (AstEnumValue (sampleBase ''Red'' EnumValue True (sampleDoc Public []))
                          (Some \<lparr>syntaxKind = 0, tokens = [''Red'', ''='', ''4'']\<rparr>)) []))
                ''Red'' = Some (JObject node)
              \<and> getProperty node ''value'' = Some (JString ''4''))"
  using visitAstEnumValue_value
          [of "sampleBase ''Red'' EnumValue True (sampleDoc Public [])" sampleSyntaxKinds
              "Some \<lparr>syntaxKind = 0, tokens = [''Red'', ''='', ''4'']\<rparr>" "[]"]
  by (simp add: sampleBase_def sampleDoc_def)

section \<open>Constructors\<close>

text \<open>
  C4. A method named \<open>__constructor\<close> that is emitted has a node of kind \<open>constructor\<close>
  whose fields are exactly kind, signature, parameters, deprecatedMessage, summary and
  remarks, whatever its access modifier and its other method fields are: the node has no
  accessModifier, isOptional, isStatic or returnValue.
\<close>

theorem visitAstMethod_constructor:
  assumes "supportedName b" and "releaseTag (documentation b) \<in> {None_tag, Beta, Public}"
    and "name b = ''__constructor''"
  shows "\<exists>node. getProperty (snd (visit ts (AstMethod b info) obj)) (name b) = Some (JObject node)
           \<and> keys node = [''kind'', ''signature'', ''parameters'', ''deprecatedMessage'',
                           ''summary'', ''remarks'']
           \<and> getProperty node ''kind'' = Some (JString ''constructor'')"
proof -
  have "visit ts (AstMethod b info) obj = visitAstMethod b info obj"
    using assms(2) by (simp add: visit_visible)
  then show ?thesis
    using assms(1,3)
    by (simp add: visitAstMethod_def getProperty_setProperty_same Let_def
                  getProperty_Cons keys_def)
qed

theorem visitAstMethod_constructor_witness:
  "supportedName (sampleBase ''__constructor'' Method True (sampleDoc Beta []))
   \<and> releaseTag (documentation (sampleBase ''__constructor'' Method True (sampleDoc Beta [])))
       \<in> {None_tag, Beta, Public}
   \<and> name (sampleBase ''__constructor'' Method True (sampleDoc Beta [])) = ''__constructor''
   \<and> (\<exists>node. getProperty
                (snd (visit sampleSyntaxKinds
                       (AstMethod (sampleBase ''__constructor'' Method True (sampleDoc Beta []))
                          (sampleMethodInfo [] (Some Private))) []))
                ''__constructor'' = Some (JObject node)
              \<and> keys node = [''kind'', ''signature'', ''parameters'', ''deprecatedMessage'',
                              ''summary'', ''remarks'']
              \<and> getProperty node ''kind'' = Some (JString ''constructor''))"
  using visitAstMethod_constructor
          [of "sampleBase ''__constructor'' Method True (sampleDoc Beta [])" sampleSyntaxKinds
              "sampleMethodInfo [] (Some Private)" "[]"]
  by (simp add: sampleBase_def sampleDoc_def)

section \<open>Emitted members and key order\<close>

lemma not_visibleTag:
  "\<not> visibleTag b \<Longrightarrow> releaseTag (documentation b) \<in> {Alpha, Internal}"
  by (cases "releaseTag (documentation b)") (auto simp: visibleTag_def)

lemma visit_visibleTag:
  "visibleTag (base item) \<Longrightarrow> visit ts item obj = AstItemVisitor_visit ts item obj"
  by (simp add: visit_visible visibleTag_def)

lemma visit_not_visibleTag: "\<not> visibleTag (base item) \<Longrightarrow> visit ts item obj = (item, obj)"
  by (intro visit_hidden not_visibleTag)

lemma visit_not_emitted:
  assumes "\<not> emitted ts item" and "\<not> isPackage item"
  shows "visit ts item obj = (item, obj)"
proof (cases "visibleTag (base item)")
  case False
  then show ?thesis
    by (intro visit_hidden not_visibleTag)
next
  case True
  then have "visit ts item obj = AstItemVisitor_visit ts item obj"
    by (rule visit_visibleTag)
  with True assms show ?thesis
    by (cases item)
       (simp_all add: visitAstStructuredType.simps visitAstEnum.simps
         visitAstNamespace.simps visitAstEnumValue_def visitAstFunction_def visitAstMember_def
         visitAstProperty_def visitAstMethod_def)
qed

lemma visit_emitted:
  assumes "emitted ts item" and "\<not> isPackage item"
  shows "\<exists>v. snd (visit ts item obj) = setProperty obj (name (base item)) v"
proof -
  from assms have "visibleTag (base item)"
    by (cases item) simp_all
  then have "visit ts item obj = AstItemVisitor_visit ts item obj"
    by (rule visit_visibleTag)
  with assms show ?thesis
    by (cases item)
       (auto simp: visitAstStructuredType.simps visitAstEnum.simps
         visitAstNamespace.simps visitAstEnumValue_def visitAstFunction_def visitAstMember_def
         visitAstProperty_def visitAstMethod_def visitAstModuleVariable_def Let_def
         split: prod.splits)
qed

lemma foldl_addKey_distinct:
  "distinct (ks @ ns) \<Longrightarrow> foldl addKey ks ns = ks @ ns"
  by (induction ns arbitrary: ks) (auto simp: addKey_def)

lemma insertionOrder_distinct: "distinct ns \<Longrightarrow> insertionOrder ns = ns"
  using foldl_addKey_distinct [of "[]" ns] by (simp add: insertionOrder_def)

lemma container_nodes:
  assumes "visibleTag b"
  shows "supportedName b \<Longrightarrow>
           subContainer ''values'' (getProperty (snd (visit ts (AstEnum b ms) obj)) (name b))
             = Some (snd (visitMembers ts ms []))"
    and "supportedName b \<Longrightarrow>
           subContainer ''exports'' (getProperty (snd (visit ts (AstNamespace b ms) obj)) (name b))
             = Some (snd (visitMembers ts ms []))"
    and "subContainer ''exports'' (Some (JObject (snd (visit ts (AstPackage b ms) obj))))
             = Some (snd (visitMembers ts ms []))"
    and "supportedName b \<Longrightarrow> ms \<noteq> [] \<Longrightarrow>
           subContainer ''members''
               (getProperty (snd (visit ts (AstStructuredType b i ms) obj)) (name b))
             = Some (snd (visitMembers ts ms []))"
    and "supportedName b \<Longrightarrow>
           subContainer ''members''
               (getProperty (snd (visit ts (AstStructuredType b i []) obj)) (name b))
             = None"
  using assms
  by (simp_all add: visit_visibleTag visitAstEnum.simps visitAstNamespace.simps
        visitAstPackage.simps visitAstStructuredType.simps getProperty_setProperty_same
        getProperty_Cons getProperty_Nil Let_def setProperty_def [of "_ # _"] subContainer.simps
        split: prod.splits)

lemma ownKeys_visit:
  assumes "\<not> isPackage item"
  shows "ownKeys (snd (visit ts item obj))
           = (if emitted ts item \<and> itemName item \<noteq> ''__proto__''
              then addKey (ownKeys obj) (itemName item) else ownKeys obj)"
proof (cases "emitted ts item")
  case True
  from visit_emitted [OF True assms] obtain v
    where "snd (visit ts item obj) = setProperty obj (name (base item)) v" ..
  with True show ?thesis
    by (simp add: ownKeys_setProperty itemName_def)
next
  case False
  with assms show ?thesis
    by (simp add: visit_not_emitted)
qed

lemma ownKeys_visitMembers:
  "\<forall>m\<in>set ms. \<not> isPackage m \<Longrightarrow>
     ownKeys (snd (visitMembers ts ms obj))
       = foldl addKey (ownKeys obj)
           (filter (\<lambda>n. n \<noteq> ''__proto__'') (map itemName (filter (emitted ts) ms)))"
proof (induction ms arbitrary: obj)
  case Nil
  then show ?case by simp
next
  case (Cons m ms)
  obtain m' obj' where v: "visit ts m obj = (m', obj')"
    by (cases "visit ts m obj")
  have k: "ownKeys obj' = (if emitted ts m \<and> itemName m \<noteq> ''__proto__''
                           then addKey (ownKeys obj) (itemName m) else ownKeys obj)"
    using ownKeys_visit [of m ts obj] Cons.prems v by simp
  have "ownKeys (snd (visitMembers ts (m # ms) obj)) = ownKeys (snd (visitMembers ts ms obj'))"
    using v by (simp split: prod.splits)
  also have "\<dots> = foldl addKey (ownKeys obj')
                      (filter (\<lambda>n. n \<noteq> ''__proto__'') (map itemName (filter (emitted ts) ms)))"
    using Cons.prems by (intro Cons.IH) simp
  finally show ?case
    using k by simp
qed

lemma regularMember_not_package: "regularMember m \<Longrightarrow> \<not> isPackage m"
  by (cases m) simp_all

lemma ownKeys_regular_members:
  assumes "\<forall>m\<in>set ms. regularMember m"
    and "''__proto__'' \<notin> set (map itemName (filter (emitted ts) ms))"
  shows "ownKeys (snd (visitMembers ts ms []))
           = insertionOrder (map itemName (filter (emitted ts) ms))"
proof -
  from assms(1) have "\<forall>m\<in>set ms. \<not> isPackage m"
    by (simp add: regularMember_not_package)
  then have "ownKeys (snd (visitMembers ts ms []))
               = foldl addKey (ownKeys [])
                   (filter (\<lambda>n. n \<noteq> ''__proto__'') (map itemName (filter (emitted ts) ms)))"
    by (rule ownKeys_visitMembers)
  moreover from assms(2)
  have "\<forall>n\<in>set (map itemName (filter (emitted ts) ms)). n \<noteq> ''__proto__''"
    by blast
  then have "filter (\<lambda>n. n \<noteq> ''__proto__'') (map itemName (filter (emitted ts) ms))
          = map itemName (filter (emitted ts) ms)"
    by (rule filter_True)
  ultimately show ?thesis
    by (simp add: insertionOrder_def ownKeys_def)
qed

text \<open>
  C3. For an enum, a namespace, the package and a structured type with members, the own
  keys of the member container are the names of the emitted members in the order of the
  member list, each name standing once, where its first emitted member stands: a later
  member of the same name takes over the entry in place. With distinct names the keys are
  exactly the names in the order of the member list. Nothing is sorted. The member list
  holds no package, which is the root, and no visible module variable with an unsupported
  name, so that its emitted members are the members that pass the release-tag gate and
  the check of the name (and are no set accessors); no emitted member is named
  \<open>__proto__\<close>.
\<close>

theorem member_container_key_order:
  assumes "visibleTag b" and "\<forall>m\<in>set ms. regularMember m"
    and "''__proto__'' \<notin> set (map itemName (filter (emitted ts) ms))"
  shows "(supportedName b \<longrightarrow>
            map_option ownKeys
              (subContainer ''values'' (getProperty (snd (visit ts (AstEnum b ms) obj)) (name b)))
              = Some (insertionOrder (map itemName (filter (emitted ts) ms))))
       \<and> (supportedName b \<longrightarrow>
            map_option ownKeys
              (subContainer ''exports'' (getProperty (snd (visit ts (AstNamespace b ms) obj)) (name b)))
              = Some (insertionOrder (map itemName (filter (emitted ts) ms))))
       \<and> map_option ownKeys
            (subContainer ''exports'' (Some (JObject (snd (visit ts (AstPackage b ms) obj)))))
            = Some (insertionOrder (map itemName (filter (emitted ts) ms)))
       \<and> (supportedName b \<and> ms \<noteq> [] \<longrightarrow>
            map_option ownKeys
              (subContainer ''members''
                (getProperty (snd (visit ts (AstStructuredType b i ms) obj)) (name b)))
              = Some (insertionOrder (map itemName (filter (emitted ts) ms))))
       \<and> (distinct (map itemName (filter (emitted ts) ms)) \<longrightarrow>
            insertionOrder (map itemName (filter (emitted ts) ms))
              = map itemName (filter (emitted ts) ms))
       \<and> (\<forall>m\<in>set ms. emitted ts m = (visibleTag (base m) \<and> supportedName (base m)
              \<and> (case m of AstProperty pb pi \<Rightarrow> syntaxKind (propDeclaration pi) \<noteq> SetAccessor ts
                  | _ \<Rightarrow> True)))"
proof -
  have "\<forall>m\<in>set ms. emitted ts m = (visibleTag (base m) \<and> supportedName (base m)
              \<and> (case m of AstProperty pb pi \<Rightarrow> syntaxKind (propDeclaration pi) \<noteq> SetAccessor ts
                  | _ \<Rightarrow> True))"
  proof
    fix m
    assume "m \<in> set ms"
    with assms(2) have "regularMember m"
      by simp
    then show "emitted ts m = (visibleTag (base m) \<and> supportedName (base m)
              \<and> (case m of AstProperty pb pi \<Rightarrow> syntaxKind (propDeclaration pi) \<noteq> SetAccessor ts
                  | _ \<Rightarrow> True))"
      by (cases m) auto
  qed
  then show ?thesis
    using ownKeys_regular_members [OF assms(2,3)]
    by (simp add: container_nodes [OF assms(1)] insertionOrder_distinct)
qed

theorem member_container_key_order_witness:
  "visibleTag (sampleBase ''N'' Namespace True (sampleDoc Public []))
   \<and> regularMember (publicMethod ''b'') \<and> regularMember alphaClass
   \<and> regularMember (publicMethod ''a'')
   \<and> ''__proto__'' \<notin> set (map itemName (filter (emitted sampleSyntaxKinds)
                                              [publicMethod ''b'', alphaClass, publicMethod ''a'']))
   \<and> supportedName (sampleBase ''N'' Namespace True (sampleDoc Public []))
   \<and> distinct (map itemName (filter (emitted sampleSyntaxKinds)
                                 [publicMethod ''b'', alphaClass, publicMethod ''a'']))
   \<and> map_option ownKeys
        (subContainer ''exports''
           (getProperty
              (snd (visit sampleSyntaxKinds
                     (AstNamespace (sampleBase ''N'' Namespace True (sampleDoc Public []))
                        [publicMethod ''b'', alphaClass, publicMethod ''a'']) []))
              ''N''))
       = Some [''b'', ''a'']"
  using member_container_key_order
          [where b = "sampleBase ''N'' Namespace True (sampleDoc Public [])"
             and ts = sampleSyntaxKinds
             and ms = "[publicMethod ''b'', alphaClass, publicMethod ''a'']"
             and obj = "[]" and i = sampleStructuredTypeInfo]
  by (simp add: sampleBase_def sampleDoc_def visibleTag_def publicMethod_def alphaClass_def
        itemName_def visit.simps visitAstNamespace.simps visitAstEnum.simps visitAstPackage.simps
        visitAstStructuredType.simps visitAstMethod_def Let_def setProperty_def getProperty_def
        ownKeys_def subContainer.simps insertionOrder_def addKey_def)

text \<open>
  Two members of one name, as two overloads of a method are: the member container has one
  key for the two names of the member list.
\<close>

theorem same_name_members_share_a_key:
  "map_option ownKeys
     (subContainer ''members''
        (getProperty
           (snd (visit sampleSyntaxKinds (sampleClass ''Foo'' [publicMethod ''bar'', publicMethod ''bar'']) []))
           ''Foo''))
     = Some [''bar'']
   \<and> map itemName (filter (emitted sampleSyntaxKinds) [publicMethod ''bar'', publicMethod ''bar''])
       = [''bar'', ''bar'']"
  by (simp add: sampleClass_def publicMethod_def sampleBase_def sampleDoc_def
        sampleStructuredTypeInfo_def visit.simps visitAstStructuredType.simps visitAstMethod_def
        Let_def getProperty_def setProperty_def ownKeys_def itemName_def visibleTag_def
        subContainer.simps)

section \<open>Sub-containers\<close>

text \<open>
  C8. An emitted enum node always has its \<open>values\<close> object and an emitted namespace
  node and the package always have their \<open>exports\<close> object, with no members too. An
  emitted structured type node has a \<open>members\<close> object exactly when the member list
  of the type is not empty.
\<close>

theorem sub_containers:
  assumes "visibleTag b"
  shows "(supportedName b \<longrightarrow>
            subContainer ''values'' (getProperty (snd (visit ts (AstEnum b ms) obj)) (name b)) \<noteq> None)
       \<and> (supportedName b \<longrightarrow>
            subContainer ''exports'' (getProperty (snd (visit ts (AstNamespace b ms) obj)) (name b))
              \<noteq> None)
       \<and> subContainer ''exports'' (Some (JObject (snd (visit ts (AstPackage b ms) obj)))) \<noteq> None
       \<and> (supportedName b \<longrightarrow>
            (subContainer ''members''
                (getProperty (snd (visit ts (AstStructuredType b i ms) obj)) (name b)) \<noteq> None)
            = (ms \<noteq> []))"
  by (cases "ms = []") (simp_all add: container_nodes [OF assms])

theorem sub_containers_witness:
  "visibleTag (sampleBase ''E'' Enum True (sampleDoc Public []))
   \<and> supportedName (sampleBase ''E'' Enum True (sampleDoc Public []))
   \<and> subContainer ''values''
        (getProperty
           (snd (visit sampleSyntaxKinds (AstEnum (sampleBase ''E'' Enum True (sampleDoc Public [])) []) []))
           ''E'') \<noteq> None
   \<and> (subContainer ''members''
        (getProperty
           (snd (visit sampleSyntaxKinds
                  (AstStructuredType (sampleBase ''E'' Enum True (sampleDoc Public []))
                     sampleStructuredTypeInfo []) []))
           ''E'') = None)"
  using sub_containers
          [where b = "sampleBase ''E'' Enum True (sampleDoc Public [])" and ts = sampleSyntaxKinds
             and ms = "[]" and obj = "[]" and i = sampleStructuredTypeInfo]
  by (simp add: sampleBase_def sampleDoc_def visibleTag_def)

text \<open>
  A class without members: its node has no \<open>members\<close> key.
\<close>

theorem class_without_members:
  "getProperty (snd (visit sampleSyntaxKinds (sampleClass ''Foo'' []) [])) ''Foo''
     = Some (JObject
         [(''kind'', JString ''class''),
          (''extends'', JString []),
          (''implements'', JString []),
          (''typeParameters'', JArray []),
          (''deprecatedMessage'', JArray []),
          (''summary'', JArray []),
          (''remarks'', JArray []),
          (''isBeta'', JBool False)])"
  by (simp add: sampleClass_def sampleBase_def sampleDoc_def sampleStructuredTypeInfo_def visit.simps
        visitAstStructuredType.simps Let_def getProperty_def setProperty_def orEmpty_def 
        orEmptyString_def isBeta_def)

section \<open>The common fields of a node\<close>

lemma kindString: "convertKindToJson k \<in> set kindStrings"
  by (cases k) (simp_all add: kindStrings_def)

text \<open>
  C7. The node of an emitted class or interface, enum, enum value, function, method that
  is not a constructor, property, module variable or namespace is an object with a kind
  of the Kind-Name Table, a boolean isBeta, and summary, remarks and deprecatedMessage.
  The node of a constructor has the kind \<open>constructor\<close>, summary, remarks and
  deprecatedMessage, and no isBeta. The placeholder handler assigns a string, not an
  object; under every name but \<open>__proto__\<close>, where the assignment of a string does
  nothing, the container then holds that string.
\<close>

theorem node_common_fields:
  "(emitted ts item \<and> fullNodeItem item \<longrightarrow>
      (\<exists>v. getProperty (snd (visit ts item obj)) (itemName item) = Some v \<and> hasCommonFields v))
   \<and> (emitted ts (AstMethod b info) \<and> name b = ''__constructor'' \<longrightarrow>
      (\<exists>node. getProperty (snd (visit ts (AstMethod b info) obj)) (name b) = Some (JObject node)
         \<and> getProperty node ''kind'' = Some (JString ''constructor'')
         \<and> getProperty node ''summary'' \<noteq> None
         \<and> getProperty node ''remarks'' \<noteq> None
         \<and> getProperty node ''deprecatedMessage'' \<noteq> None
         \<and> getProperty node ''isBeta'' = None))
   \<and> (emitted ts (AstMember b d) \<longrightarrow>
      snd (visit ts (AstMember b d) obj)
        = setProperty obj (name b) (JString (''astMember-'' @ numberToString (syntaxKind d)))
      \<and> (name b \<noteq> ''__proto__'' \<longrightarrow>
           getProperty (snd (visit ts (AstMember b d) obj)) (name b)
             = Some (JString (''astMember-'' @ numberToString (syntaxKind d)))))"
proof (intro conjI impI)
  assume a: "emitted ts item \<and> fullNodeItem item"
  then have "visibleTag (base item)"
    by (cases item) simp_all
  then have v: "visit ts item obj = AstItemVisitor_visit ts item obj"
    by (rule visit_visibleTag)
  show "\<exists>v. getProperty (snd (visit ts item obj)) (itemName item) = Some v \<and> hasCommonFields v"
    using a unfolding v
    by (cases item)
       (auto simp: visitAstStructuredType.simps visitAstEnum.simps
         visitAstNamespace.simps visitAstEnumValue_def visitAstFunction_def
         visitAstProperty_def visitAstMethod_def visitAstModuleVariable_def Let_def
         getProperty_setProperty_same getProperty_Cons getProperty_Nil itemName_def kindString
         isBeta_def orEmpty_def setProperty_def [of "_ # _"]
         kindString [of Class, simplified] kindString [of Interface, simplified]
         split: prod.splits option.splits)
next
  assume a: "emitted ts (AstMethod b info) \<and> name b = ''__constructor''"
  then have "visit ts (AstMethod b info) obj = visitAstMethod b info obj"
    by (simp add: visit_visibleTag)
  with a show "\<exists>node. getProperty (snd (visit ts (AstMethod b info) obj)) (name b) = Some (JObject node)
         \<and> getProperty node ''kind'' = Some (JString ''constructor'')
         \<and> getProperty node ''summary'' \<noteq> None
         \<and> getProperty node ''remarks'' \<noteq> None
         \<and> getProperty node ''deprecatedMessage'' \<noteq> None
         \<and> getProperty node ''isBeta'' = None"
    by (simp add: visitAstMethod_def Let_def getProperty_setProperty_same getProperty_Cons
          getProperty_Nil orEmpty_def split: option.splits)
next
  assume a: "emitted ts (AstMember b d)"
  then have v: "visit ts (AstMember b d) obj = visitAstMember b d obj"
    by (simp add: visit_visibleTag)
  with a show "snd (visit ts (AstMember b d) obj)
        = setProperty obj (name b) (JString (''astMember-'' @ numberToString (syntaxKind d)))"
    by (simp add: visitAstMember_def)
  assume "name b \<noteq> ''__proto__''"
  with a v show "getProperty (snd (visit ts (AstMember b d) obj)) (name b)
        = Some (JString (''astMember-'' @ numberToString (syntaxKind d)))"
    by (simp add: visitAstMember_def getProperty_setProperty_same)
qed

theorem node_common_fields_witness:
  "emitted sampleSyntaxKinds (publicMethod ''bar'') \<and> fullNodeItem (publicMethod ''bar'')
   \<and> (\<exists>v. getProperty (snd (visit sampleSyntaxKinds (publicMethod ''bar'') []))
              (itemName (publicMethod ''bar'')) = Some v
          \<and> hasCommonFields v)
   \<and> emitted sampleSyntaxKinds
        (AstMethod (sampleBase ''__constructor'' Method True (sampleDoc Public []))
           (sampleMethodInfo [] None))
   \<and> emitted sampleSyntaxKinds
        (AstMember (sampleBase ''m'' Property True (sampleDoc Public []))
           \<lparr>syntaxKind = 42, tokens = []\<rparr>)
   \<and> getProperty
        (snd (visit sampleSyntaxKinds
               (AstMember (sampleBase ''m'' Property True (sampleDoc Public []))
                  \<lparr>syntaxKind = 42, tokens = []\<rparr>) []))
        ''m'' = Some (JString ''astMember-42'')"
  using node_common_fields
          [where ts = sampleSyntaxKinds and item = "publicMethod ''bar''" and obj = "[]"
             and b = "sampleBase ''__constructor'' Method True (sampleDoc Public [])"
             and info = "sampleMethodInfo [] None"
             and d = "\<lparr>syntaxKind = 42, tokens = []\<rparr>"]
        node_common_fields
          [where ts = sampleSyntaxKinds and item = "publicMethod ''bar''" and obj = "[]"
             and b = "sampleBase ''m'' Property True (sampleDoc Public [])"
             and info = "sampleMethodInfo [] None"
             and d = "\<lparr>syntaxKind = 42, tokens = []\<rparr>"]
  by (simp add: publicMethod_def sampleBase_def sampleDoc_def visibleTag_def itemName_def
        numberToString.simps visit.simps visitAstMember_def visitAstMethod_def Let_def
        setProperty_def getProperty_def kindStrings_def orEmpty_def isBeta_def asIs_def
        parametersNode_def)

text \<open>
  The node of a public constructor: it has no isBeta.
\<close>

theorem constructor_without_isBeta:
  "getProperty (snd (visit sampleSyntaxKinds (publicMethod ''__constructor'') [])) ''__constructor''
     = Some (JObject
         [(''kind'', JString ''constructor''),
          (''signature'', JString ''bar(x: number): string;''),
          (''parameters'', JObject []),
          (''deprecatedMessage'', JArray []),
          (''summary'', JArray []),
          (''remarks'', JArray [])])
   \<and> \<not> hasCommonFields (JObject
         [(''kind'', JString ''constructor''),
          (''signature'', JString ''bar(x: number): string;''),
          (''parameters'', JObject []),
          (''deprecatedMessage'', JArray []),
          (''summary'', JArray []),
          (''remarks'', JArray [])])"
  by (simp add: publicMethod_def sampleBase_def sampleDoc_def sampleMethodInfo_def visit.simps
        visitAstMethod_def Let_def getProperty_def setProperty_def orEmpty_def parametersNode_def)

section \<open>Parameter documentation\<close>

lemma visitApiParam_Some: "visitApiParam p x = Some r \<Longrightarrow> x \<noteq> None"
  by (auto simp: visitApiParam_def split: if_splits option.splits)

lemma keys_visitApiParams: "map fst (visitApiParams ps docs) = map fst docs"
proof (induction ps arbitrary: docs)
  case Nil
  then show ?case by simp
next
  case (Cons p ps)
  show ?case
  proof (cases "visitApiParam p (map_of docs (name p))")
    case None
    then show ?thesis by (simp add: Cons.IH)
  next
    case (Some r)
    then have "map_of docs (name p) \<noteq> None"
      by (rule visitApiParam_Some)
    then have "name p \<in> fst ` set docs"
      by (simp add: map_of_eq_None_iff)
    with Some show ?thesis
      by (simp add: Cons.IH update_keys)
  qed
qed

lemma visitApiParams_other:
  "n \<notin> name ` set ps \<Longrightarrow> map_of (visitApiParams ps docs) n = map_of docs n"
  by (induction ps arbitrary: docs) (auto simp: update_conv' split: option.splits)

lemma visitApiParams_declared:
  assumes "distinct (map name ps)" and "p \<in> set ps"
  shows "map_of (visitApiParams ps docs) (name p) = visitApiParam p (map_of docs (name p))"
  using assms
proof (induction ps arbitrary: docs)
  case Nil
  then show ?case by simp
next
  case (Cons q ps)
  show ?case
  proof (cases "p = q")
    case True
    with Cons.prems have "name q \<notin> name ` set ps"
      by simp
    then show ?thesis
      using True
      by (auto simp: visitApiParams_other update_conv' visitApiParam_def split: option.splits)
  next
    case False
    with Cons.prems have p: "p \<in> set ps" and d: "distinct (map name ps)"
      by auto
    from p have "name p \<in> name ` set ps"
      by (rule imageI)
    with Cons.prems(1) have "name p \<noteq> name q"
      by auto
    then show ?thesis
      by (simp add: Cons.IH [OF d p] update_conv' split: option.splits)
  qed
qed

lemma parameters_nodes:
  assumes "visibleTag b" and "supportedName b"
  shows "subContainer ''parameters'' (getProperty (snd (visit ts (AstFunction b finfo) obj)) (name b))
           = Some (map (\<lambda>(n, r). (n, JObject r))
                    (visitApiParams (fnParams finfo) (parameters (documentation b))))"
    and "subContainer ''parameters'' (getProperty (snd (visit ts (AstMethod b minfo) obj)) (name b))
           = Some (map (\<lambda>(n, r). (n, JObject r))
                    (visitApiParams (params minfo) (parameters (documentation b))))"
  using assms
  by (simp_all add: visit_visibleTag visitAstFunction_def visitAstMethod_def Let_def
        getProperty_setProperty_same subContainer.simps getProperty_Cons parametersNode_def)

lemma keys_emittedParameters: "keys (emittedParameters ps docs) = map fst docs"
  using keys_visitApiParams [of ps docs]
  by (simp add: emittedParameters_def keys_def case_prod_unfold comp_def)

lemma getProperty_emittedParameters:
  "getProperty (emittedParameters ps docs) n = map_option JObject (map_of (visitApiParams ps docs) n)"
  by (simp add: emittedParameters_def getProperty_def map_of_map)

lemma undocumented_absent:
  "map_of docs n = None \<Longrightarrow> map_of (visitApiParams ps docs) n = None"
  using keys_visitApiParams [of ps docs]
  by (metis map_of_eq_None_iff set_map)

text \<open>
  C9. The \<open>parameters\<close> object of an emitted function or method node is the
  parameter documentation of the item: its keys are the documented names, in their
  order. A declared parameter without a documentation entry is not in it. A declared
  parameter with an entry (the declared names being distinct) has the entry as
  \<open>visitApiParam\<close> leaves it: the documented fields and, when the parameter's name is
  supported, isOptional, isSpread and type of the declaration.
\<close>

theorem documented_parameters:
  assumes "visibleTag b" and "supportedName b"
  shows "(\<exists>ps. subContainer ''parameters''
                 (getProperty (snd (visit ts (AstFunction b finfo) obj)) (name b)) = Some ps
            \<and> keys ps = map fst (parameters (documentation b))
            \<and> (\<forall>p\<in>set (fnParams finfo).
                  map_of (parameters (documentation b)) (name p) = None \<longrightarrow>
                    getProperty ps (name p) = None)
            \<and> (\<forall>p\<in>set (fnParams finfo).
                  distinct (map name (fnParams finfo)) \<longrightarrow>
                    getProperty ps (name p)
                      = map_option JObject
                          (visitApiParam p (map_of (parameters (documentation b)) (name p)))))
       \<and> (\<exists>ps. subContainer ''parameters''
                 (getProperty (snd (visit ts (AstMethod b minfo) obj)) (name b)) = Some ps
            \<and> keys ps = map fst (parameters (documentation b))
            \<and> (\<forall>p\<in>set (params minfo).
                  map_of (parameters (documentation b)) (name p) = None \<longrightarrow>
                    getProperty ps (name p) = None)
            \<and> (\<forall>p\<in>set (params minfo).
                  distinct (map name (params minfo)) \<longrightarrow>
                    getProperty ps (name p)
                      = map_option JObject
                          (visitApiParam p (map_of (parameters (documentation b)) (name p)))))"
  by (simp add: parameters_nodes [OF assms] emittedParameters_def [symmetric]
        keys_emittedParameters undocumented_absent getProperty_emittedParameters
        visitApiParams_declared)

theorem documented_parameters_witness:
  "visibleTag (sampleBase ''f'' Function True (sampleDoc Public documentedX))
   \<and> supportedName (sampleBase ''f'' Function True (sampleDoc Public documentedX))
   \<and> (\<exists>ps. subContainer ''parameters''
               (getProperty (snd (visit sampleSyntaxKinds (sampleFunction documentedX) [])) ''f'')
              = Some ps
            \<and> keys ps = [''x'']
            \<and> getProperty ps ''x''
                = Some (JObject
                    [(''name'', JString ''x''), (''description'', JArray []),
                     (''isOptional'', JBool False), (''isSpread'', JBool False),
                     (''type'', JString ''number'')]))"
  using documented_parameters
          [where b = "sampleBase ''f'' Function True (sampleDoc Public documentedX)"
             and ts = sampleSyntaxKinds
             and finfo = "\<lparr>fnParams = [sampleParameter ''x'' ''number''], fnReturnType = ''string''\<rparr>"
             and minfo = "sampleMethodInfo [] None" and obj = "[]"]
  by (simp add: sampleFunction_def sampleBase_def sampleDoc_def visibleTag_def documentedX_def
        sampleParameter_def visitApiParam_def setProperty_def)

text \<open>
  The function \<open>f(x: number): string\<close> with no documentation of \<open>x\<close>: the
  \<open>parameters\<close> object of its node is empty.
\<close>

theorem undocumented_parameter_absent:
  "getProperty (snd (visit sampleSyntaxKinds (sampleFunction []) [])) ''f''
     = Some (JObject
         [(''kind'', JString ''function''),
          (''returnValue'', JObject [(''type'', JString ''string''), (''description'', JUndefined)]),
          (''parameters'', JObject []),
          (''deprecatedMessage'', JArray []),
          (''summary'', JArray []),
          (''remarks'', JArray []),
          (''isBeta'', JBool False)])"
  by (simp add: sampleFunction_def sampleParameter_def sampleBase_def sampleDoc_def visit.simps
        visitAstFunction_def Let_def getProperty_def setProperty_def orEmpty_def asIs_def
        isBeta_def parametersNode_def visitApiParam_def)

section \<open>What the traversal changes in the item tree\<close>

lemma withoutDeclaredFields_setProperty:
  "k \<in> declaredFields \<Longrightarrow> withoutDeclaredFields (setProperty r k v) = withoutDeclaredFields r"
  by (induction r) (auto simp: withoutDeclaredFields_def setProperty_def)

lemma visitApiParam_change:
  "visitApiParam p (Some r) = Some r' \<Longrightarrow>
     (if supportedName p then withoutDeclaredFields r' = withoutDeclaredFields r else r' = r)"
  by (auto simp: visitApiParam_def withoutDeclaredFields_setProperty declaredFields_def
           split: if_splits)

lemma entryChange_refl: "entryChange declared e e"
  by (simp add: entryChange_def)

lemma entryChange_trans:
  "entryChange declared e1 e2 \<Longrightarrow> entryChange declared e2 e3 \<Longrightarrow> entryChange declared e1 e3"
  by (auto simp: entryChange_def split: if_splits)

lemma entryChanges_refl: "list_all2 (entryChange declared) docs docs"
  by (simp add: list_all2_refl entryChange_refl)

lemma entryChanges_update:
  "map_of docs n = Some r \<Longrightarrow> withoutDeclaredFields r' = withoutDeclaredFields r \<Longrightarrow>
     n \<in> declared \<Longrightarrow> list_all2 (entryChange declared) docs (AList.update n r' docs)"
proof (induction docs)
  case Nil
  then show ?case by simp
next
  case (Cons e docs)
  show ?case
  proof (cases "fst e = n")
    case True
    with Cons.prems have "entryChange declared e (n, r')"
      by (cases e) (simp add: entryChange_def)
    with True show ?thesis
      by (simp add: entryChanges_refl)
  next
    case False
    with Cons.prems have "map_of docs n = Some r"
      by (cases e) (simp split: if_splits)
    then have "list_all2 (entryChange declared) docs (AList.update n r' docs)"
      using Cons.prems by (intro Cons.IH)
    with False show ?thesis
      by (simp add: entryChange_refl)
  qed
qed

lemma entryChanges_visitApiParams:
  "declaredNames ps \<subseteq> declared \<Longrightarrow>
     list_all2 (entryChange declared) docs (visitApiParams ps docs)"
proof (induction ps arbitrary: docs)
  case Nil
  then show ?case by (simp add: entryChanges_refl)
next
  case (Cons p ps)
  from Cons.prems have sub: "declaredNames ps \<subseteq> declared"
    by (auto simp: declaredNames_def)
  show ?case
  proof (cases "visitApiParam p (map_of docs (name p))")
    case None
    then show ?thesis
      using Cons.IH [OF sub] by simp
  next
    case (Some r')
    then obtain r where r: "map_of docs (name p) = Some r"
      using visitApiParam_Some by fastforce
    have step: "list_all2 (entryChange declared) docs (AList.update (name p) r' docs)"
    proof (cases "supportedName p")
      case True
      with Cons.prems have "name p \<in> declared"
        by (auto simp: declaredNames_def)
      moreover from Some r True have "withoutDeclaredFields r' = withoutDeclaredFields r"
        using visitApiParam_change [of p r r'] by simp
      ultimately show ?thesis
        using r by (intro entryChanges_update)
    next
      case False
      with Some r have "r' = r"
        using visitApiParam_change [of p r r'] by simp
      with r show ?thesis
        by (simp add: update_triv entryChanges_refl)
    qed
    have "list_all2 (entryChange declared) (AList.update (name p) r' docs)
            (visitApiParams ps (AList.update (name p) r' docs))"
      by (rule Cons.IH [OF sub])
    with step have "list_all2 (entryChange declared) docs
            (visitApiParams ps (AList.update (name p) r' docs))"
      by (rule list_all2_trans [rotated 1]) (rule entryChange_trans)
    with Some show ?thesis
      by simp
  qed
qed

lemma baseChange_visitApiParams:
  "baseChange (declaredNames ps) b
     (b\<lparr>documentation := (documentation b)
          \<lparr>parameters := visitApiParams ps (parameters (documentation b))\<rparr>\<rparr>)"
  by (simp add: baseChange_def entryChanges_visitApiParams)

lemma treeChanges_visitMembers:
  "(\<And>m obj. m \<in> set ms \<Longrightarrow> treeChange m (fst (visit ts m obj))) \<Longrightarrow>
     treeChanges ms (fst (visitMembers ts ms obj))"
proof (induction ms arbitrary: obj)
  case Nil
  then show ?case by simp
next
  case (Cons m ms)
  obtain m' obj' where v: "visit ts m obj = (m', obj')"
    by (cases "visit ts m obj")
  then have "treeChange m m'"
    using Cons.prems [of m obj] by simp
  moreover have "treeChanges ms (fst (visitMembers ts ms obj'))"
    using Cons.prems by (intro Cons.IH) simp
  ultimately show ?case
    using v by (simp add: case_prod_beta)
qed

text \<open>
  C6. The traversal changes the item tree in one place only: in the parameter
  documentation of a function or method that is emitted, the entry of a declared parameter
  with a supported name may get other isOptional, isSpread and type properties. All else
  is after the visit what it was before: an item that is suppressed or skipped with all
  that is below it, every item that is no function or method, and of an emitted function
  or method the name, kind, release tag, rich-text fields and declared parameters, the
  keys of the parameter documentation and their order, the entries of names that are not
  declared, and the other properties of the entries of declared names.
\<close>

theorem visit_changes_declared_fields_only:
  "treeChange item (fst (visit ts item obj))
   \<and> (visibleTag b \<and> supportedName b \<longrightarrow>
        (\<forall>p\<in>set (fnParams finfo). distinct (map name (fnParams finfo)) \<longrightarrow>
           map_of (parameters (documentation (base (fst (visit ts (AstFunction b finfo) obj)))))
               (name p)
             = visitApiParam p (map_of (parameters (documentation b)) (name p)))
        \<and> (\<forall>p\<in>set (params minfo). distinct (map name (params minfo)) \<longrightarrow>
           map_of (parameters (documentation (base (fst (visit ts (AstMethod b minfo) obj)))))
               (name p)
             = visitApiParam p (map_of (parameters (documentation b)) (name p))))"
proof (intro conjI impI)
  assume "visibleTag b \<and> supportedName b"
  then show "\<forall>p\<in>set (fnParams finfo). distinct (map name (fnParams finfo)) \<longrightarrow>
           map_of (parameters (documentation (base (fst (visit ts (AstFunction b finfo) obj)))))
               (name p)
             = visitApiParam p (map_of (parameters (documentation b)) (name p))"
    by (simp add: visit_visibleTag visitAstFunction_def Let_def visitApiParams_declared)
next
  assume "visibleTag b \<and> supportedName b"
  then show "\<forall>p\<in>set (params minfo). distinct (map name (params minfo)) \<longrightarrow>
           map_of (parameters (documentation (base (fst (visit ts (AstMethod b minfo) obj)))))
               (name p)
             = visitApiParam p (map_of (parameters (documentation b)) (name p))"
    by (simp add: visit_visibleTag visitAstMethod_def Let_def visitApiParams_declared)
next
  show "treeChange item (fst (visit ts item obj))"
  proof (induction item arbitrary: obj)
    case (AstStructuredType b i ms)
    have ms: "\<And>obj. treeChanges ms (fst (visitMembers ts ms obj))"
      using AstStructuredType by (intro treeChanges_visitMembers) simp
    show ?case
      using ms [of "[]"]
      by (cases "visibleTag b")
         (auto simp: visit_visibleTag visit_not_visibleTag visitAstStructuredType.simps Let_def
               split: prod.splits)
  next
    case (AstEnum b ms)
    have ms: "\<And>obj. treeChanges ms (fst (visitMembers ts ms obj))"
      using AstEnum by (intro treeChanges_visitMembers) simp
    show ?case
      using ms [of "[]"]
      by (cases "visibleTag b")
         (auto simp: visit_visibleTag visit_not_visibleTag visitAstEnum.simps
               split: prod.splits)
  next
    case (AstPackage b ms)
    have ms: "\<And>obj. treeChanges ms (fst (visitMembers ts ms obj))"
      using AstPackage by (intro treeChanges_visitMembers) simp
    show ?case
      using ms [of "[]"]
      by (cases "visibleTag b")
         (auto simp: visit_visibleTag visit_not_visibleTag visitAstPackage.simps
               split: prod.splits)
  next
    case (AstNamespace b ms)
    have ms: "\<And>obj. treeChanges ms (fst (visitMembers ts ms obj))"
      using AstNamespace by (intro treeChanges_visitMembers) simp
    show ?case
      using ms [of "[]"]
      by (cases "visibleTag b")
         (auto simp: visit_visibleTag visit_not_visibleTag visitAstNamespace.simps
               split: prod.splits)
  next
    case (AstFunction b i)
    show ?case
      by (cases "visibleTag b")
         (simp_all add: visit_visibleTag visit_not_visibleTag visitAstFunction_def Let_def
            baseChange_visitApiParams)
  next
    case (AstMethod b i)
    show ?case
      by (cases "visibleTag b")
         (simp_all add: visit_visibleTag visit_not_visibleTag visitAstMethod_def Let_def
            baseChange_visitApiParams)
  next
    case (AstEnumValue b d)
    show ?case
      by (cases "visibleTag b")
         (simp_all add: visit_visibleTag visit_not_visibleTag visitAstEnumValue_def Let_def)
  next
    case (AstMember b d)
    show ?case
      by (cases "visibleTag b")
         (simp_all add: visit_visibleTag visit_not_visibleTag visitAstMember_def)
  next
    case (AstProperty b i)
    show ?case
      by (cases "visibleTag b")
         (simp_all add: visit_visibleTag visit_not_visibleTag visitAstProperty_def)
  next
    case (AstModuleVariable b i)
    show ?case
      by (cases "visibleTag b")
         (simp_all add: visit_visibleTag visit_not_visibleTag visitAstModuleVariable_def)
  qed
qed

theorem visit_changes_declared_fields_only_witness:
  "treeChange (samplePackage [sampleFunction documentedX, internalFunction])
     (fst (visit sampleSyntaxKinds (samplePackage [sampleFunction documentedX, internalFunction]) []))
   \<and> visibleTag (sampleBase ''f'' Function True (sampleDoc Public documentedX))
   \<and> supportedName (sampleBase ''f'' Function True (sampleDoc Public documentedX))
   \<and> distinct (map name [sampleParameter ''x'' ''number''])
   \<and> map_of (parameters (documentation (base
         (fst (visit sampleSyntaxKinds (sampleFunction documentedX) []))))) ''x''
       = visitApiParam (sampleParameter ''x'' ''number'') (map_of documentedX ''x'')
   \<and> fst (visit sampleSyntaxKinds (samplePackage [sampleFunction documentedX, internalFunction]) [])
       = samplePackage
           [sampleFunction
              [(''x'', [(''name'', JString ''x''), (''description'', JArray []),
                        (''isOptional'', JBool False), (''isSpread'', JBool False),
                        (''type'', JString ''number'')])],
            internalFunction]"
  using visit_changes_declared_fields_only
          [where item = "samplePackage [sampleFunction documentedX, internalFunction]"
             and ts = sampleSyntaxKinds and obj = "[]"
             and b = "sampleBase ''f'' Function True (sampleDoc Public documentedX)"
             and finfo = "\<lparr>fnParams = [sampleParameter ''x'' ''number''], fnReturnType = ''string''\<rparr>"
             and minfo = "sampleMethodInfo [] None"]
  by (simp add: samplePackage_def sampleFunction_def internalFunction_def documentedX_def
        sampleParameter_def sampleBase_def sampleDoc_def visit.simps visitAstPackage.simps
        visitAstFunction_def Let_def visitApiParam_def setProperty_def visibleTag_def
        baseChange_def entryChange_def declaredNames_def withoutDeclaredFields_def
        declaredFields_def)

text \<open>
  The function \<open>f(x: number): string\<close> with a documented \<open>x\<close>: the visit writes
  isOptional, isSpread and type into the documentation entry of the item.
\<close>

theorem visitApiParam_writes_documentation:
  "fst (visit sampleSyntaxKinds (sampleFunction documentedX) [])
     = sampleFunction
         [(''x'', [(''name'', JString ''x''), (''description'', JArray []),
                   (''isOptional'', JBool False), (''isSpread'', JBool False),
                   (''type'', JString ''number'')])]
   \<and> fst (visit sampleSyntaxKinds (sampleFunction documentedX) []) \<noteq> sampleFunction documentedX"
  by (simp add: sampleFunction_def documentedX_def sampleParameter_def sampleBase_def sampleDoc_def
        visit.simps visitAstFunction_def Let_def visitApiParam_def setProperty_def)

end
